theory Spec2Isabelle
  imports Main
begin

section \<open>The music download endpoint of \<^verbatim>\<open>api/server.py\<close>\<close>

text \<open>
  The module is a single request handler, \<^verbatim>\<open>download_music\<close>, with a nested worker
  \<^verbatim>\<open>do_download\<close> and a deferred \<^verbatim>\<open>cleanup_file\<close>. Everything the handler reads from
  outside is an argument of the model:
  \<^item> \<^verbatim>\<open>TEMP_DIR\<close>, the value of \<^verbatim>\<open>tempfile.gettempdir()\<close> at import time;
  \<^item> \<^verbatim>\<open>temp_id\<close>, the value of \<^verbatim>\<open>str(uuid.uuid4())\<close> drawn for the request;
  \<^item> \<^verbatim>\<open>ydl\<close>, the outcome of \<^verbatim>\<open>extract_info(url, download=True)\<close> under given options:
    the exception it raises or the metadata it returns;
  \<^item> \<^verbatim>\<open>listing\<close>, what \<^verbatim>\<open>os.listdir(TEMP_DIR)\<close> returns after the extraction;
  \<^item> \<^verbatim>\<open>FileResponse_raises\<close>, the exception that the framework's \<^verbatim>\<open>FileResponse(...)\<close>
    raises on given arguments, if any;
  \<^item> the file system that \<^verbatim>\<open>cleanup_file\<close> later works on.

  Python text is a \<^typ>\<open>string\<close> holding its UTF-8 bytes, so the accented letters and
  pictographs of the messages are written with their byte values. The byte of \<^verbatim>\<open>/\<close>
  occurs in UTF-8 only as that character, so prefix tests and the replacement of
  \<^verbatim>\<open>/\<close> agree with Python's on code points. Paths follow \<^verbatim>\<open>posixpath\<close>.
\<close>

subsection \<open>Exceptions and log records\<close>

text \<open>
  Each exception carries the text \<^verbatim>\<open>str(e)\<close> gives. \<^verbatim>\<open>HTTPException\<close> carries
  \<^verbatim>\<open>status_code\<close> and \<^verbatim>\<open>detail\<close>, and prints as \<^verbatim>\<open>status_code: detail\<close>.
  \<^verbatim>\<open>UnicodeEncodeError\<close> is a subclass of \<^verbatim>\<open>ValueError\<close>. \<^verbatim>\<open>Exception\<close> stands for any
  exception of a class the handler has no clause for.
\<close>

datatype exn =
    DownloadError string
  | ValueError string
  | FileNotFoundError string
  | PermissionError string
  | OSError string
  | TypeError string
  | AttributeError string
  | UnicodeEncodeError string
  | HTTPException nat string
  | Exception string

function decimal :: "nat \<Rightarrow> string" where
  "decimal n =
     (if n < 10 then [''0123456789'' ! n]
      else decimal (n div 10) @ [''0123456789'' ! (n mod 10)])"
  by pat_completeness auto
termination
  by (relation "measure (\<lambda>n. n)") auto

declare decimal.simps [simp del]

fun str :: "exn \<Rightarrow> string" where
  "str (DownloadError m) = m"
| "str (ValueError m) = m"
| "str (FileNotFoundError m) = m"
| "str (PermissionError m) = m"
| "str (OSError m) = m"
| "str (TypeError m) = m"
| "str (AttributeError m) = m"
| "str (UnicodeEncodeError m) = m"
| "str (HTTPException status detail) = decimal status @ '': '' @ detail"
| "str (Exception m) = m"

text \<open>The \<^verbatim>\<open>except\<close> clauses test the class of the exception, subclasses included.\<close>

fun isinstance_DownloadError :: "exn \<Rightarrow> bool" where
  "isinstance_DownloadError (DownloadError m) = True"
| "isinstance_DownloadError e = False"

fun isinstance_ValueError :: "exn \<Rightarrow> bool" where
  "isinstance_ValueError (ValueError m) = True"
| "isinstance_ValueError (UnicodeEncodeError m) = True"
| "isinstance_ValueError e = False"

fun isinstance_OSError :: "exn \<Rightarrow> bool" where
  "isinstance_OSError (OSError m) = True"
| "isinstance_OSError (FileNotFoundError m) = True"
| "isinstance_OSError (PermissionError m) = True"
| "isinstance_OSError e = False"

datatype level = INFO | WARNING | ERROR

type_synonym log = "(level \<times> string) list"

subsection \<open>String and path primitives\<close>

fun startswith :: "string \<Rightarrow> string \<Rightarrow> bool" where
  "startswith s [] = True"
| "startswith [] (p # ps) = False"
| "startswith (c # cs) (p # ps) = (c = p \<and> startswith cs ps)"

definition endswith_sep :: "string \<Rightarrow> bool" where
  "endswith_sep a = (a \<noteq> [] \<and> last a = CHR ''/'')"

text \<open>\<^verbatim>\<open>s.replace(old, new)\<close> for one-character \<^verbatim>\<open>old\<close> and \<^verbatim>\<open>new\<close>.\<close>

definition replace :: "char \<Rightarrow> char \<Rightarrow> string \<Rightarrow> string" where
  "replace old new s = map (\<lambda>c. if c = old then new else c) s"

text \<open>
  \<^verbatim>\<open>posixpath.join(a, b)\<close>: an absolute \<^verbatim>\<open>b\<close> replaces \<^verbatim>\<open>a\<close>; otherwise the two are
  concatenated, with a separator unless \<^verbatim>\<open>a\<close> is empty or already ends with one.
\<close>

definition os_path_join :: "string \<Rightarrow> string \<Rightarrow> string" where
  "os_path_join a b =
     (if startswith b ''/'' then b
      else if a = [] \<or> endswith_sep a then a @ b
      else a @ ''/'' @ b)"

subsection \<open>The request and the quality table\<close>

text \<open>
  \<^verbatim>\<open>DownloadRequest\<close>: the framework builds it from the query parameters and rejects
  the request unless \<^verbatim>\<open>quality\<close> is one of the values of the \<^verbatim>\<open>Literal\<close>. The \<^verbatim>\<open>url\<close>
  field holds the text \<^verbatim>\<open>str(request.url)\<close>.
\<close>

record DownloadRequest =
  url :: string
  quality :: string

definition Literal_quality :: "string list" where
  "Literal_quality = [''mp3_320'', ''mp3_192'', ''m4a'', ''flac'']"

text \<open>
  The dictionaries of the handler have fixed keys, so each is a record; a key that
  some entries leave out is an optional field, read with \<^verbatim>\<open>.get(key, default)\<close>.
\<close>

record postprocessor =
  key :: string
  preferredcodec :: string
  preferredquality :: "string option"

record setting =
  ext :: string
  postprocessors :: "postprocessor list option"
  format :: "string option"

definition QUALITY_SETTINGS :: "(string \<times> setting) list" where
  "QUALITY_SETTINGS =
     [(''mp3_320'',
        \<lparr>ext = ''mp3'',
         postprocessors = Some [\<lparr>key = ''FFmpegExtractAudio'', preferredcodec = ''mp3'',
                                 preferredquality = Some ''320''\<rparr>],
         format = None\<rparr>),
      (''mp3_192'',
        \<lparr>ext = ''mp3'',
         postprocessors = Some [\<lparr>key = ''FFmpegExtractAudio'', preferredcodec = ''mp3'',
                                 preferredquality = Some ''192''\<rparr>],
         format = None\<rparr>),
      (''m4a'',
        \<lparr>ext = ''m4a'', postprocessors = None, format = Some ''bestaudio[ext=m4a]/best''\<rparr>),
      (''flac'',
        \<lparr>ext = ''flac'',
         postprocessors = Some [\<lparr>key = ''FFmpegExtractAudio'', preferredcodec = ''flac'',
                                 preferredquality = None\<rparr>],
         format = None\<rparr>)]"

record ydl_opts =
  quiet :: bool
  no_warnings :: bool
  outtmpl :: string
  nocheckcertificate :: bool
  format :: string
  postprocessors :: "postprocessor list"
  extractor_args :: "(string \<times> (string \<times> string) list) list"

text \<open>The dictionary \<^verbatim>\<open>ydl_opts\<close> that the handler builds from the chosen setting.\<close>

definition build_ydl_opts :: "string \<Rightarrow> string \<Rightarrow> setting \<Rightarrow> ydl_opts" where
  "build_ydl_opts TEMP_DIR temp_id s =
     \<lparr>quiet = True,
      no_warnings = True,
      outtmpl = os_path_join TEMP_DIR (temp_id @ ''.%(ext)s''),
      nocheckcertificate = True,
      format = (case setting.format s of None \<Rightarrow> ''bestaudio/best'' | Some f \<Rightarrow> f),
      postprocessors = (case setting.postprocessors s of None \<Rightarrow> [] | Some ps \<Rightarrow> ps),
      extractor_args = [(''youtube'', [(''player_client'', ''default'')])]\<rparr>"

subsection \<open>The worker \<^verbatim>\<open>do_download\<close>\<close>

text \<open>
  The metadata dictionary that \<^verbatim>\<open>extract_info\<close> returns. Its values are Python objects:
  a text, \<^verbatim>\<open>None\<close> or a number. The worker reads only \<^verbatim>\<open>title\<close>.
\<close>

datatype pyobj = PyStr string | PyNone | PyInt int

type_synonym info = "(string \<times> pyobj) list"

type_synonym extractor = "ydl_opts \<Rightarrow> string \<Rightarrow> exn + info"

definition no_attribute_replace :: "string \<Rightarrow> string" where
  "no_attribute_replace cls =
     [CHR 0x27] @ cls @ [CHR 0x27] @ '' object has no attribute '' @
     [CHR 0x27] @ ''replace'' @ [CHR 0x27]"

text \<open>
  \<^verbatim>\<open>info.get('title', 'audio').replace('/', '_')\<close>: the default stands in only for a
  missing key; on a title that is present and not a text, the attribute lookup raises.
\<close>

definition title_of :: "info \<Rightarrow> exn + string" where
  "title_of info =
     (case map_of info ''title'' of
        None \<Rightarrow> Inr (replace CHR ''/'' CHR ''_'' ''audio'')
      | Some (PyStr t) \<Rightarrow> Inr (replace CHR ''/'' CHR ''_'' t)
      | Some PyNone \<Rightarrow> Inl (AttributeError (no_attribute_replace ''NoneType''))
      | Some (PyInt n) \<Rightarrow> Inl (AttributeError (no_attribute_replace ''int'')))"

text \<open>The loop over the directory listing: the first name that starts with the identifier.\<close>

fun first_match :: "string \<Rightarrow> string list \<Rightarrow> string option" where
  "first_match temp_id [] = None"
| "first_match temp_id (f # fs) =
     (if startswith f temp_id then Some f else first_match temp_id fs)"

definition not_found_message :: string where
  "not_found_message =
     ''No se encontr'' @ [CHR 0xC3, CHR 0xB3] @
     '' el archivo procesado en el directorio temporal.''"

definition url_error_message :: string where
  "url_error_message =
     ''No se pudo procesar la URL. Puede ser inv'' @ [CHR 0xC3, CHR 0xA1] @
     ''lida o el video no est'' @ [CHR 0xC3, CHR 0xA1] @ '' disponible.''"

text \<open>
  The two \<^verbatim>\<open>except\<close> clauses of the worker, in their order: a download error is logged
  as a warning and replaced by a \<^verbatim>\<open>ValueError\<close> with a fixed text; anything else is
  logged as an error and raised again. The title is taken before the listing is read,
  so an exception of that line reaches the clauses without any scan.
\<close>

definition do_download_except :: "exn \<Rightarrow> log \<times> (exn + string \<times> string)" where
  "do_download_except e =
     (if isinstance_DownloadError e
      then ([(WARNING, ''Error de descarga de yt-dlp: '' @ str e)],
            Inl (ValueError url_error_message))
      else ([(ERROR, ''Error inesperado en el hilo de descarga: '' @ str e)], Inl e))"

definition do_download ::
  "string \<Rightarrow> extractor \<Rightarrow> ydl_opts \<Rightarrow> string list \<Rightarrow> string \<Rightarrow> DownloadRequest
     \<Rightarrow> log \<times> (exn + string \<times> string)" where
  "do_download TEMP_DIR ydl opts listing temp_id request =
     (case ydl opts (url request) of
        Inl e \<Rightarrow> do_download_except e
      | Inr info \<Rightarrow>
          (case title_of info of
             Inl e \<Rightarrow> do_download_except e
           | Inr title \<Rightarrow>
               (case first_match temp_id listing of
                  Some f \<Rightarrow> ([], Inr (os_path_join TEMP_DIR f, title))
                | None \<Rightarrow> do_download_except (FileNotFoundError not_found_message))))"

subsection \<open>The handler \<^verbatim>\<open>download_music\<close>\<close>

record FileResponse =
  path :: string
  filename :: string
  media_type :: string

text \<open>A task added to \<^verbatim>\<open>background_tasks\<close>: the function and its argument.\<close>

datatype task = cleanup_file_task string

definition internal_error_detail :: string where
  "internal_error_detail =
     ''Ocurri'' @ [CHR 0xC3, CHR 0xB3] @ '' un error interno en el servidor.''"

definition not_subscriptable :: string where
  "not_subscriptable = [CHR 0x27] @ ''NoneType'' @ [CHR 0x27] @ '' object is not subscriptable''"

text \<open>
  \<^verbatim>\<open>FileResponse(final_path, filename=..., media_type=...)\<close> is the framework's
  constructor. It is called inside the \<^verbatim>\<open>try\<close> and may raise (it encodes the file name
  for the \<^verbatim>\<open>Content-Disposition\<close> header); when it does not, the response has the
  three arguments as its fields.
\<close>

type_synonym responder = "string \<Rightarrow> string \<Rightarrow> string \<Rightarrow> exn option"

text \<open>
  The two \<^verbatim>\<open>except\<close> clauses of the handler, in their order, on the log written so far:
  a \<^verbatim>\<open>ValueError\<close> becomes status 400 with the exception's text as detail; anything
  else is logged and becomes status 500 with a fixed detail.
\<close>

definition download_music_except ::
  "log \<Rightarrow> exn \<Rightarrow> log \<times> (exn + FileResponse \<times> task list)" where
  "download_music_except lg e =
     (if isinstance_ValueError e then (lg, Inl (HTTPException 400 (str e)))
      else (lg @ [(ERROR, [CHR 0xE2, CHR 0x9D, CHR 0x8C] @ '' Error cr'' @
                          [CHR 0xC3, CHR 0xAD] @
                          ''tico en el endpoint /download: '' @ str e)],
            Inl (HTTPException 500 internal_error_detail)))"

text \<open>
  The handler returns its log and either the exception that leaves it or the response
  with the tasks it scheduled. The table lookup and \<^verbatim>\<open>setting['ext']\<close> stand before the
  \<^verbatim>\<open>try\<close>: when \<^verbatim>\<open>.get\<close> yields \<^verbatim>\<open>None\<close>, the subscript raises a \<^verbatim>\<open>TypeError\<close> that no
  clause of the handler catches. Inside the \<^verbatim>\<open>try\<close> the worker runs, the cleanup task is
  added, the file is announced in the log, and the response is constructed.
\<close>

definition download_music ::
  "string \<Rightarrow> extractor \<Rightarrow> responder \<Rightarrow> string list \<Rightarrow> string \<Rightarrow> DownloadRequest
     \<Rightarrow> log \<times> (exn + FileResponse \<times> task list)" where
  "download_music TEMP_DIR ydl FileResponse_raises listing temp_id request =
     (let received =
            [(INFO, [CHR 0xF0, CHR 0x9F, CHR 0x93, CHR 0xA5] @
                    '' Solicitud de descarga recibida: '' @ url request @
                    '' | Calidad: '' @ quality request)]
      in case map_of QUALITY_SETTINGS (quality request) of
           None \<Rightarrow> (received, Inl (TypeError not_subscriptable))
         | Some s \<Rightarrow>
             (let ext = ext s;
                  opts = build_ydl_opts TEMP_DIR temp_id s
              in case do_download TEMP_DIR ydl opts listing temp_id request of
                   (worker_log, Inr (final_path, title)) \<Rightarrow>
                     (let sending =
                            received @ worker_log @
                            [(INFO, [CHR 0xE2, CHR 0x9C, CHR 0x85] @ '' Enviando archivo: '' @
                                    title @ ''.'' @ ext)]
                      in case FileResponse_raises final_path (title @ ''.'' @ ext)
                                ''application/octet-stream'' of
                           None \<Rightarrow>
                             (sending,
                              Inr (\<lparr>path = final_path, filename = title @ ''.'' @ ext,
                                    media_type = ''application/octet-stream''\<rparr>,
                                   [cleanup_file_task final_path]))
                         | Some e \<Rightarrow> download_music_except sending e)
                 | (worker_log, Inl e) \<Rightarrow> download_music_except (received @ worker_log) e))"

subsection \<open>The deferred task \<^verbatim>\<open>cleanup_file\<close>\<close>

text \<open>
  The file system as \<^verbatim>\<open>cleanup_file\<close> sees it: the paths that exist, and for each path
  the exception \<^verbatim>\<open>os.remove\<close> raises on it, if any (a permission, a busy file).
  \<^verbatim>\<open>os.remove\<close> on a path that does not exist raises \<^verbatim>\<open>FileNotFoundError\<close>, whose text
  quotes the path (written here for a path that \<^verbatim>\<open>repr\<close> leaves as it is).
\<close>

record filesystem =
  files :: "string list"
  remove_error :: "string \<Rightarrow> exn option"

definition os_path_exists :: "filesystem \<Rightarrow> string \<Rightarrow> bool" where
  "os_path_exists fs p = (p \<in> set (files fs))"

definition os_remove :: "filesystem \<Rightarrow> string \<Rightarrow> exn + filesystem" where
  "os_remove fs p =
     (case remove_error fs p of
        Some e \<Rightarrow> Inl e
      | None \<Rightarrow>
          if p \<in> set (files fs) then Inr (fs\<lparr>files := removeAll p (files fs)\<rparr>)
          else Inl (FileNotFoundError
                      (''[Errno 2] No such file or directory: '' @
                       [CHR 0x27] @ p @ [CHR 0x27])))"

text \<open>
  \<^verbatim>\<open>cleanup_file\<close> returns the file system it leaves, its log, and either the exception
  that leaves it or \<^verbatim>\<open>()\<close>. Only an \<^verbatim>\<open>OSError\<close> is caught.
\<close>

definition removed_record :: "string \<Rightarrow> level \<times> string" where
  "removed_record p =
     (INFO, [CHR 0xF0, CHR 0x9F, CHR 0xA7, CHR 0xB9] @ '' Archivo temporal eliminado: '' @ p)"

definition remove_failed_record :: "string \<Rightarrow> exn \<Rightarrow> level \<times> string" where
  "remove_failed_record p e =
     (ERROR, [CHR 0xE2, CHR 0x9D, CHR 0x8C] @ '' Error al eliminar el archivo '' @ p @
             '': '' @ str e)"

definition cleanup_file :: "filesystem \<Rightarrow> string \<Rightarrow> filesystem \<times> log \<times> (exn + unit)" where
  "cleanup_file fs p =
     (if os_path_exists fs p then
        (case os_remove fs p of
           Inr fs' \<Rightarrow> (fs', [removed_record p], Inr ())
         | Inl e \<Rightarrow>
             if isinstance_OSError e then (fs, [remove_failed_record p e], Inr ())
             else (fs, [], Inl e))
      else (fs, [], Inr ()))"

section \<open>Properties\<close>

subsection \<open>Helper facts\<close>

text \<open>Prefixes and the scan of the listing.\<close>

lemma startswith_append: "startswith s p \<longleftrightarrow> (\<exists>r. s = p @ r)"
  by (induction s p rule: startswith.induct) auto


lemma first_match_Some:
  "first_match temp_id l = Some f \<Longrightarrow> f \<in> set l \<and> startswith f temp_id"
  by (induction l) (auto split: if_splits)

lemma first_match_split:
  "\<forall>g \<in> set pre. \<not> startswith g temp_id \<Longrightarrow> startswith f temp_id
     \<Longrightarrow> first_match temp_id (pre @ f # post) = Some f"
  by (induction pre) auto

lemma startswith_same_length:
  "startswith f a \<Longrightarrow> startswith f b \<Longrightarrow> length a = length b \<Longrightarrow> a = b"
  by (auto simp: startswith_append)

text \<open>Joining paths.\<close>

lemma os_path_join_relative:
  "\<not> startswith b ''/'' \<Longrightarrow>
   os_path_join a b = (if a = [] \<or> endswith_sep a then a else a @ ''/'') @ b"
  by (simp add: os_path_join_def)

lemma os_path_join_same_length:
  assumes "os_path_join a b = os_path_join a c" and "length b = length c"
  shows "b = c"
proof (cases "startswith b ''/''"; cases "startswith c ''/''")
  assume "startswith b ''/''" "startswith c ''/''"
  with assms(1) show ?thesis by (simp add: os_path_join_def)
next
  assume b: "startswith b ''/''" and c: "\<not> startswith c ''/''"
  from assms(1) b have "b = os_path_join a c" by (simp add: os_path_join_def)
  with c have "b = (if a = [] \<or> endswith_sep a then a else a @ ''/'') @ c"
    by (simp add: os_path_join_relative)
  with assms(2) show ?thesis
    by (cases "a = [] \<or> endswith_sep a") (auto dest: arg_cong [where f = length])
next
  assume b: "\<not> startswith b ''/''" and c: "startswith c ''/''"
  from assms(1) c have "c = os_path_join a b" by (simp add: os_path_join_def)
  with b have "c = (if a = [] \<or> endswith_sep a then a else a @ ''/'') @ b"
    by (simp add: os_path_join_relative)
  with assms(2) show ?thesis
    by (cases "a = [] \<or> endswith_sep a") (auto dest: arg_cong [where f = length])
next
  assume "\<not> startswith b ''/''" "\<not> startswith c ''/''"
  with assms(1) show ?thesis by (simp add: os_path_join_relative)
qed

lemma no_sep_relative: "CHR ''/'' \<notin> set f \<Longrightarrow> \<not> startswith f ''/''"
  by (auto simp: startswith_append)

lemma os_path_join_names:
  "CHR ''/'' \<notin> set f \<Longrightarrow> CHR ''/'' \<notin> set g \<Longrightarrow>
   os_path_join a f = os_path_join a g \<Longrightarrow> f = g"
  by (simp add: os_path_join_relative no_sep_relative)

text \<open>The title: when the line returns, and what it raises otherwise.\<close>

lemma title_of_Inr:
  "title_of info = Inr t \<longleftrightarrow>
     (map_of info ''title'' = None \<and> t = ''audio'') \<or>
     (\<exists>raw. map_of info ''title'' = Some (PyStr raw) \<and>
            t = map (\<lambda>c. if c = CHR ''/'' then CHR ''_'' else c) raw)"
  by (auto simp: title_of_def replace_def split: option.splits pyobj.splits)

lemma title_of_no_sep: "title_of info = Inr t \<Longrightarrow> CHR ''/'' \<notin> set t"
  by (auto simp: title_of_Inr)


text \<open>The table.\<close>

lemma table_ext:
  "map_of QUALITY_SETTINGS q = Some s \<Longrightarrow>
   (q, ext s) \<in> {(''mp3_320'', ''mp3''), (''mp3_192'', ''mp3''), (''m4a'', ''m4a''),
                 (''flac'', ''flac'')}"
  by (auto simp: QUALITY_SETTINGS_def split: if_splits)

lemma table_dom:
  "q \<in> set Literal_quality \<longleftrightarrow> map_of QUALITY_SETTINGS q \<noteq> None"
  by (auto simp: QUALITY_SETTINGS_def Literal_quality_def split: if_splits)

text \<open>The outcomes of the worker and of the handler.\<close>

lemma do_download_found:
  "ydl opts (url request) = Inr info \<Longrightarrow> title_of info = Inr t \<Longrightarrow>
   first_match temp_id listing = Some f \<Longrightarrow>
   do_download TEMP_DIR ydl opts listing temp_id request =
     ([], Inr (os_path_join TEMP_DIR f, t))"
  by (simp add: do_download_def)



lemma do_download_raised:
  "ydl opts (url request) = Inl e \<Longrightarrow>
   snd (do_download TEMP_DIR ydl opts listing temp_id request) =
     (if isinstance_DownloadError e then Inl (ValueError url_error_message) else Inl e)"
  by (simp add: do_download_def do_download_except_def)

lemma snd_download_music_except:
  "snd (download_music_except lg e) =
     (if isinstance_ValueError e then Inl (HTTPException 400 (str e))
      else Inl (HTTPException 500 internal_error_detail))"
  by (simp add: download_music_except_def)

lemma download_music_worker:
  "map_of QUALITY_SETTINGS (quality request) = Some s \<Longrightarrow>
   snd (download_music TEMP_DIR ydl FileResponse_raises listing temp_id request) =
     (case snd (do_download TEMP_DIR ydl (build_ydl_opts TEMP_DIR temp_id s) listing temp_id
                  request) of
        Inr (final_path, title) \<Rightarrow>
          (case FileResponse_raises final_path (title @ ''.'' @ ext s)
                  ''application/octet-stream'' of
             None \<Rightarrow>
               Inr (\<lparr>path = final_path, filename = title @ ''.'' @ ext s,
                     media_type = ''application/octet-stream''\<rparr>,
                    [cleanup_file_task final_path])
           | Some e \<Rightarrow>
               if isinstance_ValueError e then Inl (HTTPException 400 (str e))
               else Inl (HTTPException 500 internal_error_detail))
      | Inl e \<Rightarrow>
          if isinstance_ValueError e then Inl (HTTPException 400 (str e))
          else Inl (HTTPException 500 internal_error_detail))"
  by (simp add: download_music_def Let_def snd_download_music_except
           split: prod.splits sum.splits option.splits)

lemma download_music_success:
  assumes "snd (download_music TEMP_DIR ydl FileResponse_raises listing temp_id request) =
             Inr (resp, tasks)"
  shows "\<exists>s info t f.
           map_of QUALITY_SETTINGS (quality request) = Some s \<and>
           ydl (build_ydl_opts TEMP_DIR temp_id s) (url request) = Inr info \<and>
           title_of info = Inr t \<and>
           first_match temp_id listing = Some f \<and>
           FileResponse_raises (os_path_join TEMP_DIR f) (t @ ''.'' @ ext s)
             ''application/octet-stream'' = None \<and>
           resp = \<lparr>path = os_path_join TEMP_DIR f, filename = t @ ''.'' @ ext s,
                   media_type = ''application/octet-stream''\<rparr> \<and>
           tasks = [cleanup_file_task (os_path_join TEMP_DIR f)]"
  using assms
  by (auto simp: download_music_def do_download_def do_download_except_def
             download_music_except_def Let_def
           split: option.splits sum.splits prod.splits if_splits)

text \<open>Removing one path leaves every other path as it was.\<close>

lemma cleanup_file_other:
  "q \<noteq> p \<Longrightarrow> os_path_exists (fst (cleanup_file fs p)) q = os_path_exists fs q"
  by (auto simp: cleanup_file_def os_path_exists_def os_remove_def
           split: option.splits sum.splits if_splits)

subsection \<open>Extraction failures reported by the library\<close>

text \<open>
  C1. When the extraction library raises its download error for the request's URL, the
  handler fails with an \<^verbatim>\<open>HTTPException\<close> of status 400. Its detail is the fixed text
  of the worker's \<^verbatim>\<open>ValueError\<close>, the same for every download error, and it is not
  empty.
\<close>

theorem download_error_is_client_error:
  assumes "map_of QUALITY_SETTINGS (quality request) = Some s"
    and "ydl (build_ydl_opts TEMP_DIR temp_id s) (url request) = Inl e"
    and "isinstance_DownloadError e"
  shows "snd (download_music TEMP_DIR ydl FileResponse_raises listing temp_id request) =
           Inl (HTTPException 400 url_error_message) \<and> url_error_message \<noteq> []"
  using assms
  by (simp add: download_music_worker do_download_raised url_error_message_def)

theorem download_error_is_client_error_witness:
  "snd (download_music ''/tmp'' (\<lambda>opts u. Inl (DownloadError ''ERROR: Unsupported URL''))
          (\<lambda>p f m. None) [] ''1b4e28ba''
          \<lparr>url = ''https://example.org/gone'', quality = ''flac''\<rparr>) =
     Inl (HTTPException 400 url_error_message) \<and> url_error_message \<noteq> []"
  by (rule download_error_is_client_error
        [where s = "the (map_of QUALITY_SETTINGS ''flac'')"
           and e = "DownloadError ''ERROR: Unsupported URL''"])
     (simp_all add: QUALITY_SETTINGS_def)

subsection \<open>Quality profiles and extraction options\<close>

text \<open>
  C2. Each of the four quality selectors is found in the static table, with extension
  mp3, mp3, m4a and flac in that order; and whatever setting the options are built
  from, they carry the flag that disables the certificate check and the hint that
  names the player client.
\<close>

theorem quality_profiles_and_options:
  "map_option ext (map_of QUALITY_SETTINGS ''mp3_320'') = Some ''mp3'' \<and>
   map_option ext (map_of QUALITY_SETTINGS ''mp3_192'') = Some ''mp3'' \<and>
   map_option ext (map_of QUALITY_SETTINGS ''m4a'') = Some ''m4a'' \<and>
   map_option ext (map_of QUALITY_SETTINGS ''flac'') = Some ''flac'' \<and>
   nocheckcertificate (build_ydl_opts TEMP_DIR temp_id s) = True \<and>
   extractor_args (build_ydl_opts TEMP_DIR temp_id s) =
     [(''youtube'', [(''player_client'', ''default'')])]"
  by (simp add: QUALITY_SETTINGS_def build_ydl_opts_def)

subsection \<open>A result file that cannot be found\<close>



subsection \<open>The title in the file name\<close>

text \<open>
  C4. In every successful response the file name is the title taken from the metadata,
  with each \<^verbatim>\<open>/\<close> replaced, followed by a dot and the extension; neither that stem nor
  the whole file name contains the path separator \<^verbatim>\<open>/\<close>, whatever the title in the
  metadata was.
\<close>

theorem filename_stem_has_no_separator:
  assumes "snd (download_music TEMP_DIR ydl FileResponse_raises listing temp_id request) =
             Inr (resp, tasks)"
  shows "\<exists>s info t.
           map_of QUALITY_SETTINGS (quality request) = Some s \<and>
           ydl (build_ydl_opts TEMP_DIR temp_id s) (url request) = Inr info \<and>
           title_of info = Inr t \<and>
           filename resp = t @ ''.'' @ ext s \<and>
           CHR ''/'' \<notin> set t \<and>
           CHR ''/'' \<notin> set (filename resp)"
proof -
  from download_music_success [OF assms] obtain s info t f where
    s: "map_of QUALITY_SETTINGS (quality request) = Some s" and
    i: "ydl (build_ydl_opts TEMP_DIR temp_id s) (url request) = Inr info" and
    t: "title_of info = Inr t" and
    r: "resp = \<lparr>path = os_path_join TEMP_DIR f, filename = t @ ''.'' @ ext s,
                media_type = ''application/octet-stream''\<rparr>"
    by blast
  from table_ext [OF s] have "CHR ''/'' \<notin> set (ext s)" by auto
  with s i t r show ?thesis by (auto simp: title_of_no_sep)
qed

theorem filename_stem_has_no_separator_witness:
  "CHR ''/'' \<in> set ''AC/DC'' \<and>
   snd (download_music ''/tmp'' (\<lambda>opts u. Inr [(''title'', PyStr ''AC/DC'')])
          (\<lambda>p f m. None) [''1b4e28ba.flac''] ''1b4e28ba''
          \<lparr>url = ''https://example.org/watch?v=2'', quality = ''flac''\<rparr>) =
     Inr (\<lparr>path = ''/tmp/1b4e28ba.flac'', filename = ''AC_DC.flac'',
           media_type = ''application/octet-stream''\<rparr>,
          [cleanup_file_task ''/tmp/1b4e28ba.flac'']) \<and>
   (\<exists>s info t.
      map_of QUALITY_SETTINGS ''flac'' = Some s \<and>
      title_of info = Inr t \<and>
      ''AC_DC.flac'' = t @ ''.'' @ ext s \<and>
      CHR ''/'' \<notin> set t \<and> CHR ''/'' \<notin> set ''AC_DC.flac'')"
proof -
  have run:
    "snd (download_music ''/tmp'' (\<lambda>opts u. Inr [(''title'', PyStr ''AC/DC'')])
            (\<lambda>p f m. None) [''1b4e28ba.flac''] ''1b4e28ba''
            \<lparr>url = ''https://example.org/watch?v=2'', quality = ''flac''\<rparr>) =
       Inr (\<lparr>path = ''/tmp/1b4e28ba.flac'', filename = ''AC_DC.flac'',
             media_type = ''application/octet-stream''\<rparr>,
            [cleanup_file_task ''/tmp/1b4e28ba.flac''])"
    by (simp add: download_music_def do_download_def QUALITY_SETTINGS_def title_of_def
          replace_def os_path_join_def endswith_sep_def Let_def)
  from filename_stem_has_no_separator [OF run] run show ?thesis
    by simp blast
qed

subsection \<open>File name and media type of the response\<close>

text \<open>
  C5. Every successful response names the download \<^verbatim>\<open><sanitized title>.<ext>\<close> and has
  the media type \<^verbatim>\<open>application/octet-stream\<close>. The sanitized title is the text under
  \<^verbatim>\<open>title\<close> in the metadata, or \<^verbatim>\<open>audio\<close> when the metadata has no such key, with every
  \<^verbatim>\<open>/\<close> turned into \<^verbatim>\<open>_\<close> and every other character kept; the extension is the one that
  goes with the request's quality: mp3, mp3, m4a or flac.
\<close>

theorem response_filename_and_media_type:
  assumes "snd (download_music TEMP_DIR ydl FileResponse_raises listing temp_id request) =
             Inr (resp, tasks)"
  shows "\<exists>s info raw.
           map_of QUALITY_SETTINGS (quality request) = Some s \<and>
           ydl (build_ydl_opts TEMP_DIR temp_id s) (url request) = Inr info \<and>
           (map_of info ''title'' = Some (PyStr raw) \<or>
            map_of info ''title'' = None \<and> raw = ''audio'') \<and>
           filename resp =
             map (\<lambda>c. if c = CHR ''/'' then CHR ''_'' else c) raw @ ''.'' @ ext s \<and>
           (quality request, ext s) \<in>
             {(''mp3_320'', ''mp3''), (''mp3_192'', ''mp3''), (''m4a'', ''m4a''),
              (''flac'', ''flac'')} \<and>
           media_type resp = ''application/octet-stream''"
proof -
  from download_music_success [OF assms] obtain s info t f where
    s: "map_of QUALITY_SETTINGS (quality request) = Some s" and
    i: "ydl (build_ydl_opts TEMP_DIR temp_id s) (url request) = Inr info" and
    t: "title_of info = Inr t" and
    r: "resp = \<lparr>path = os_path_join TEMP_DIR f, filename = t @ ''.'' @ ext s,
                media_type = ''application/octet-stream''\<rparr>"
    by blast
  from t consider
    (absent) "map_of info ''title'' = None" "t = ''audio''" |
    (present) r where "map_of info ''title'' = Some (PyStr r)"
      "t = map (\<lambda>c. if c = CHR ''/'' then CHR ''_'' else c) r"
    by (auto simp: title_of_Inr)
  then obtain raw where
    raw: "map_of info ''title'' = Some (PyStr raw) \<or>
          map_of info ''title'' = None \<and> raw = ''audio''" and
    eq: "t = map (\<lambda>c. if c = CHR ''/'' then CHR ''_'' else c) raw"
  proof cases
    case absent
    with that [of "''audio''"] show thesis by simp
  next
    case (present r)
    with that [of r] show thesis by simp
  qed
  from r eq have
    "filename resp = map (\<lambda>c. if c = CHR ''/'' then CHR ''_'' else c) raw @ ''.'' @ ext s"
    "media_type resp = ''application/octet-stream''"
    by simp_all
  with s i raw table_ext [OF s] show ?thesis by blast
qed

theorem response_filename_and_media_type_witness:
  "snd (download_music ''/tmp'' (\<lambda>opts u. Inr [(''title'', PyStr ''Live/Studio'')])
          (\<lambda>p f m. None) [''6fa459ea.m4a''] ''6fa459ea''
          \<lparr>url = ''https://example.org/watch?v=3'', quality = ''m4a''\<rparr>) =
     Inr (\<lparr>path = ''/tmp/6fa459ea.m4a'', filename = ''Live_Studio.m4a'',
           media_type = ''application/octet-stream''\<rparr>,
          [cleanup_file_task ''/tmp/6fa459ea.m4a'']) \<and>
   ''Live_Studio.m4a'' =
     map (\<lambda>c. if c = CHR ''/'' then CHR ''_'' else c) ''Live/Studio'' @ ''.'' @ ''m4a''"
proof -
  let ?ydl = "\<lambda>(opts :: ydl_opts) (u :: string). Inr [(''title'', PyStr ''Live/Studio'')]
                :: exn + info"
  let ?r = "\<lparr>url = ''https://example.org/watch?v=3'', quality = ''m4a''\<rparr>"
  let ?resp = "\<lparr>path = ''/tmp/6fa459ea.m4a'', filename = ''Live_Studio.m4a'',
                 media_type = ''application/octet-stream''\<rparr>"
  have run:
    "snd (download_music ''/tmp'' ?ydl (\<lambda>p f m. None) [''6fa459ea.m4a''] ''6fa459ea'' ?r) =
       Inr (?resp, [cleanup_file_task ''/tmp/6fa459ea.m4a''])"
    by (simp add: download_music_def do_download_def QUALITY_SETTINGS_def title_of_def
          replace_def os_path_join_def endswith_sep_def Let_def)
  from response_filename_and_media_type [OF run] run show ?thesis
    by simp
qed

subsection \<open>Deletion failures stay inside the cleanup\<close>

text \<open>
  C6. When \<^verbatim>\<open>os.remove\<close> raises an \<^verbatim>\<open>OSError\<close> (or one of its subclasses) on the path,
  \<^verbatim>\<open>cleanup_file\<close> returns normally and leaves the file system as it was; if the path
  exists, so that the removal is attempted, its log is the one error record of that
  failure.
\<close>

theorem cleanup_file_swallows_OSError:
  assumes "os_remove fs p = Inl e" and "isinstance_OSError e"
  shows "snd (snd (cleanup_file fs p)) = Inr () \<and>
         fst (cleanup_file fs p) = fs \<and>
         (os_path_exists fs p \<longrightarrow> fst (snd (cleanup_file fs p)) = [remove_failed_record p e])"
  using assms by (simp add: cleanup_file_def)

theorem cleanup_file_swallows_OSError_witness:
  "os_remove \<lparr>files = [''/tmp/1b4e28ba.mp3''],
              remove_error = (\<lambda>p. Some (PermissionError ''[Errno 13] Permission denied''))\<rparr>
     ''/tmp/1b4e28ba.mp3'' = Inl (PermissionError ''[Errno 13] Permission denied'') \<and>
   isinstance_OSError (PermissionError ''[Errno 13] Permission denied'') \<and>
   cleanup_file \<lparr>files = [''/tmp/1b4e28ba.mp3''],
                 remove_error = (\<lambda>p. Some (PermissionError ''[Errno 13] Permission denied''))\<rparr>
     ''/tmp/1b4e28ba.mp3'' =
     (\<lparr>files = [''/tmp/1b4e28ba.mp3''],
       remove_error = (\<lambda>p. Some (PermissionError ''[Errno 13] Permission denied''))\<rparr>,
      [remove_failed_record ''/tmp/1b4e28ba.mp3''
         (PermissionError ''[Errno 13] Permission denied'')],
      Inr ())"
proof -
  let ?e = "PermissionError ''[Errno 13] Permission denied''"
  let ?fs = "\<lparr>files = [''/tmp/1b4e28ba.mp3''], remove_error = (\<lambda>p. Some ?e)\<rparr>"
  have h: "os_remove ?fs ''/tmp/1b4e28ba.mp3'' = Inl ?e"
    by (simp add: os_remove_def)
  have i: "isinstance_OSError ?e" by simp
  have x: "os_path_exists ?fs ''/tmp/1b4e28ba.mp3''" by (simp add: os_path_exists_def)
  from cleanup_file_swallows_OSError [OF h i] x h i show ?thesis
    by (simp add: prod_eq_iff)
qed

subsection \<open>Validated selectors are in the table\<close>

text \<open>
  C7. When the request's quality is one of the four values of the \<^verbatim>\<open>Literal\<close>, the
  lookup in the table yields a setting, and the handler never ends with the
  \<^verbatim>\<open>TypeError\<close> of subscripting \<^verbatim>\<open>None\<close> (nor with any other \<^verbatim>\<open>TypeError\<close>).
\<close>

theorem admitted_quality_is_in_table:
  assumes "quality request \<in> set Literal_quality"
  shows "(\<exists>s. map_of QUALITY_SETTINGS (quality request) = Some s) \<and>
         (\<forall>m. snd (download_music TEMP_DIR ydl FileResponse_raises listing temp_id request)
                 \<noteq> Inl (TypeError m))"
proof -
  from assms obtain s where s: "map_of QUALITY_SETTINGS (quality request) = Some s"
    by (auto simp: table_dom)
  then show ?thesis
    by (auto simp: download_music_worker split: sum.splits option.splits if_splits)
qed

theorem admitted_quality_is_in_table_witness:
  "''mp3_192'' \<in> set Literal_quality \<and>
   (\<exists>s. map_of QUALITY_SETTINGS ''mp3_192'' = Some s) \<and>
   (\<forall>m. snd (download_music ''/tmp'' (\<lambda>opts u. Inl (TypeError ''unexpected''))
               (\<lambda>p f m. None) [] ''1b4e28ba''
               \<lparr>url = ''https://example.org/watch?v=4'', quality = ''mp3_192''\<rparr>)
         \<noteq> Inl (TypeError m))"
proof -
  have h: "quality \<lparr>url = ''https://example.org/watch?v=4'', quality = ''mp3_192''\<rparr>
             \<in> set Literal_quality"
    by (simp add: Literal_quality_def)
  from admitted_quality_is_in_table [OF h] h show ?thesis by simp
qed

subsection \<open>The first matching entry is the result file\<close>

text \<open>
  C8, as the claim states it, fails: the extraction succeeds, the listing holds an entry
  that starts with the identifier, and still no path is returned. With \<^verbatim>\<open>None\<close> under
  \<^verbatim>\<open>title\<close> in the metadata, the title line raises \<^verbatim>\<open>AttributeError\<close> before the listing
  is read; the worker raises it again and the handler answers with status 500.
\<close>

theorem first_matching_entry_not_returned_counterexample:
  "first_match ''1b4e28ba'' [''1b4e28ba.mp3''] = Some ''1b4e28ba.mp3'' \<and>
   snd (do_download ''/tmp'' (\<lambda>opts u. Inr [(''title'', PyNone)])
          (build_ydl_opts ''/tmp'' ''1b4e28ba'' (the (map_of QUALITY_SETTINGS ''mp3_320'')))
          [''1b4e28ba.mp3''] ''1b4e28ba''
          \<lparr>url = ''https://example.org/watch?v=6'', quality = ''mp3_320''\<rparr>) =
     Inl (AttributeError (no_attribute_replace ''NoneType'')) \<and>
   snd (download_music ''/tmp'' (\<lambda>opts u. Inr [(''title'', PyNone)]) (\<lambda>p f m. None)
          [''1b4e28ba.mp3''] ''1b4e28ba''
          \<lparr>url = ''https://example.org/watch?v=6'', quality = ''mp3_320''\<rparr>) =
     Inl (HTTPException 500 internal_error_detail)"
  by (simp add: download_music_def do_download_def do_download_except_def
        download_music_except_def QUALITY_SETTINGS_def title_of_def Let_def)

text \<open>
  C8, amended. After a successful extraction whose metadata has a text under \<^verbatim>\<open>title\<close>
  or no such key, whenever some name in the listing starts with the request's
  identifier, the listing splits into names that do not start with it, then the first
  name \<^verbatim>\<open>f\<close> that does, then the rest, and the worker returns the path of \<^verbatim>\<open>f\<close> in the temp
  directory; the handler answers with that file and schedules its cleanup whenever the
  construction of the response does not raise.
\<close>

theorem first_matching_entry_is_returned:
  assumes "map_of QUALITY_SETTINGS (quality request) = Some s"
    and "ydl (build_ydl_opts TEMP_DIR temp_id s) (url request) = Inr info"
    and "map_of info ''title'' = None \<or> map_of info ''title'' = Some (PyStr raw)"
    and "\<exists>g \<in> set listing. startswith g temp_id"
  shows "\<exists>pre f post t.
           listing = pre @ f # post \<and> (\<forall>g \<in> set pre. \<not> startswith g temp_id) \<and>
           startswith f temp_id \<and>
           snd (do_download TEMP_DIR ydl (build_ydl_opts TEMP_DIR temp_id s) listing temp_id
                request) = Inr (os_path_join TEMP_DIR f, t) \<and>
           (FileResponse_raises (os_path_join TEMP_DIR f) (t @ ''.'' @ ext s)
              ''application/octet-stream'' = None \<longrightarrow>
            snd (download_music TEMP_DIR ydl FileResponse_raises listing temp_id request) =
              Inr (\<lparr>path = os_path_join TEMP_DIR f, filename = t @ ''.'' @ ext s,
                    media_type = ''application/octet-stream''\<rparr>,
                   [cleanup_file_task (os_path_join TEMP_DIR f)]))"
proof -
  from assms(3) have "\<exists>t. title_of info = Inr t"
    by (auto simp: title_of_def)
  then obtain t where t: "title_of info = Inr t" ..
  from assms(4) obtain pre f post where
    l: "listing = pre @ f # post" and f: "startswith f temp_id" and
    pre: "\<forall>g \<in> set pre. \<not> startswith g temp_id"
    using split_list_first_prop [of listing "\<lambda>g. startswith g temp_id"] by blast
  from first_match_split [OF pre f] l have m: "first_match temp_id listing = Some f"
    by simp
  from assms(2) t m have w:
    "snd (do_download TEMP_DIR ydl (build_ydl_opts TEMP_DIR temp_id s) listing temp_id request)
       = Inr (os_path_join TEMP_DIR f, t)"
    by (simp add: do_download_found)
  then have
    "FileResponse_raises (os_path_join TEMP_DIR f) (t @ ''.'' @ ext s)
       ''application/octet-stream'' = None \<longrightarrow>
     snd (download_music TEMP_DIR ydl FileResponse_raises listing temp_id request) =
       Inr (\<lparr>path = os_path_join TEMP_DIR f, filename = t @ ''.'' @ ext s,
             media_type = ''application/octet-stream''\<rparr>,
            [cleanup_file_task (os_path_join TEMP_DIR f)])"
    by (simp add: download_music_worker [OF assms(1)])
  with l f pre w show ?thesis
    by (intro exI [of _ pre] exI [of _ f] exI [of _ post] exI [of _ t]) simp
qed

theorem first_matching_entry_is_returned_witness:
  "(\<exists>g \<in> set [''unrelated.tmp'', ''1b4e28ba.flac'', ''1b4e28ba.webm''].
      startswith g ''1b4e28ba'') \<and>
   snd (do_download ''/tmp'' (\<lambda>opts u. Inr [(''title'', PyStr ''Nocturne'')])
          (build_ydl_opts ''/tmp'' ''1b4e28ba'' (the (map_of QUALITY_SETTINGS ''flac'')))
          [''unrelated.tmp'', ''1b4e28ba.flac'', ''1b4e28ba.webm''] ''1b4e28ba''
          \<lparr>url = ''https://example.org/watch?v=5'', quality = ''flac''\<rparr>) =
     Inr (''/tmp/1b4e28ba.flac'', ''Nocturne'') \<and>
   snd (download_music ''/tmp'' (\<lambda>opts u. Inr [(''title'', PyStr ''Nocturne'')])
          (\<lambda>p f m. None)
          [''unrelated.tmp'', ''1b4e28ba.flac'', ''1b4e28ba.webm''] ''1b4e28ba''
          \<lparr>url = ''https://example.org/watch?v=5'', quality = ''flac''\<rparr>) =
     Inr (\<lparr>path = ''/tmp/1b4e28ba.flac'', filename = ''Nocturne.flac'',
           media_type = ''application/octet-stream''\<rparr>,
          [cleanup_file_task ''/tmp/1b4e28ba.flac''])"
proof -
  let ?l = "[''unrelated.tmp'', ''1b4e28ba.flac'', ''1b4e28ba.webm'']"
  let ?r = "\<lparr>url = ''https://example.org/watch?v=5'', quality = ''flac''\<rparr>"
  let ?s = "the (map_of QUALITY_SETTINGS ''flac'')"
  let ?ydl = "\<lambda>(opts :: ydl_opts) (u :: string). Inr [(''title'', PyStr ''Nocturne'')]
                :: exn + info"
  have h: "\<exists>g \<in> set ?l. startswith g ''1b4e28ba''" by simp
  from first_matching_entry_is_returned
         [where request = ?r and s = ?s and ydl = ?ydl
            and info = "[(''title'', PyStr ''Nocturne'')]" and raw = "''Nocturne''"
            and listing = ?l and temp_id = "''1b4e28ba''" and TEMP_DIR = "''/tmp''"
            and FileResponse_raises = "\<lambda>p f m. None"]
  obtain pre f post t where
    l: "?l = pre @ f # post" and pre: "\<forall>g \<in> set pre. \<not> startswith g ''1b4e28ba''" and
    f: "startswith f ''1b4e28ba''" and
    w: "snd (do_download ''/tmp'' ?ydl (build_ydl_opts ''/tmp'' ''1b4e28ba'' ?s) ?l
               ''1b4e28ba'' ?r) = Inr (os_path_join ''/tmp'' f, t)" and
    r: "snd (download_music ''/tmp'' ?ydl (\<lambda>p f m. None) ?l ''1b4e28ba'' ?r) =
          Inr (\<lparr>path = os_path_join ''/tmp'' f, filename = t @ ''.'' @ ext ?s,
                media_type = ''application/octet-stream''\<rparr>,
               [cleanup_file_task (os_path_join ''/tmp'' f)])"
    by (auto simp: QUALITY_SETTINGS_def)
  from l pre f have f': "f = ''1b4e28ba.flac''"
    by (cases pre; cases "tl pre") (auto simp: Cons_eq_append_conv)
  have "snd (do_download ''/tmp'' ?ydl (build_ydl_opts ''/tmp'' ''1b4e28ba'' ?s) ?l
               ''1b4e28ba'' ?r) = Inr (os_path_join ''/tmp'' ''1b4e28ba.flac'', ''Nocturne'')"
    by (simp add: do_download_def title_of_def replace_def)
  with w have t': "t = ''Nocturne''" by simp
  from w r h show ?thesis
    unfolding f' t'
    by (simp add: QUALITY_SETTINGS_def os_path_join_def endswith_sep_def)
qed

subsection \<open>Requests with distinct identifiers\<close>

text \<open>
  C9. For two identifiers of equal length that differ: the output templates of the two
  requests differ; no name starts with both identifiers; the file that the scan finds
  for one request does not start with the other's identifier; and, the found entries
  being plain names (without \<^verbatim>\<open>/\<close>), the two result paths differ and the cleanup of
  the first request's file leaves the second request's file as it was.
\<close>

theorem distinct_identifiers_never_collide:
  assumes "length id1 = length id2" and "id1 \<noteq> id2"
  shows "outtmpl (build_ydl_opts TEMP_DIR id1 s1) \<noteq> outtmpl (build_ydl_opts TEMP_DIR id2 s2) \<and>
         \<not> (startswith f id1 \<and> startswith f id2) \<and>
         (first_match id1 listing1 = Some f1 \<longrightarrow> \<not> startswith f1 id2) \<and>
         (first_match id1 listing1 = Some f1 \<and> first_match id2 listing2 = Some f2 \<and>
          CHR ''/'' \<notin> set f1 \<and> CHR ''/'' \<notin> set f2 \<longrightarrow>
            os_path_join TEMP_DIR f1 \<noteq> os_path_join TEMP_DIR f2 \<and>
            os_path_exists (fst (cleanup_file fs (os_path_join TEMP_DIR f1)))
              (os_path_join TEMP_DIR f2) = os_path_exists fs (os_path_join TEMP_DIR f2))"
proof -
  have both: "\<not> (startswith g id1 \<and> startswith g id2)" for g
    using assms startswith_same_length by blast
  have tmpl: "outtmpl (build_ydl_opts TEMP_DIR id1 s1) \<noteq> outtmpl (build_ydl_opts TEMP_DIR id2 s2)"
  proof
    assume "outtmpl (build_ydl_opts TEMP_DIR id1 s1) = outtmpl (build_ydl_opts TEMP_DIR id2 s2)"
    then have "os_path_join TEMP_DIR (id1 @ ''.%(ext)s'') = os_path_join TEMP_DIR (id2 @ ''.%(ext)s'')"
      by (simp add: build_ydl_opts_def)
    from os_path_join_same_length [OF this] assms(1) have "id1 @ ''.%(ext)s'' = id2 @ ''.%(ext)s''"
      by simp
    with assms(2) show False by simp
  qed
  have res: "\<not> startswith f1 id2" if "first_match id1 listing1 = Some f1"
    using first_match_Some [OF that] both by blast
  have paths: "os_path_join TEMP_DIR f1 \<noteq> os_path_join TEMP_DIR f2"
    if "first_match id1 listing1 = Some f1" "first_match id2 listing2 = Some f2"
       "CHR ''/'' \<notin> set f1" "CHR ''/'' \<notin> set f2"
  proof
    assume "os_path_join TEMP_DIR f1 = os_path_join TEMP_DIR f2"
    with that(3,4) have "f1 = f2" by (rule os_path_join_names)
    with first_match_Some [OF that(1)] first_match_Some [OF that(2)] both show False
      by blast
  qed
  have keep: "os_path_exists (fst (cleanup_file fs (os_path_join TEMP_DIR f1)))
                (os_path_join TEMP_DIR f2) = os_path_exists fs (os_path_join TEMP_DIR f2)"
    if "os_path_join TEMP_DIR f1 \<noteq> os_path_join TEMP_DIR f2"
    using that by (intro cleanup_file_other) simp
  from both tmpl res paths keep show ?thesis
    by blast
qed

theorem distinct_identifiers_never_collide_witness:
  "length ''1b4e28ba-2fa1-41d2-883f-0016d3cca427'' =
     length ''6fa459ea-ee8a-4ca4-894e-db77e160355e'' \<and>
   ''1b4e28ba-2fa1-41d2-883f-0016d3cca427'' \<noteq> ''6fa459ea-ee8a-4ca4-894e-db77e160355e'' \<and>
   first_match ''1b4e28ba-2fa1-41d2-883f-0016d3cca427''
     [''6fa459ea-ee8a-4ca4-894e-db77e160355e.mp3'',
      ''1b4e28ba-2fa1-41d2-883f-0016d3cca427.flac''] =
     Some ''1b4e28ba-2fa1-41d2-883f-0016d3cca427.flac'' \<and>
   first_match ''6fa459ea-ee8a-4ca4-894e-db77e160355e''
     [''6fa459ea-ee8a-4ca4-894e-db77e160355e.mp3'',
      ''1b4e28ba-2fa1-41d2-883f-0016d3cca427.flac''] =
     Some ''6fa459ea-ee8a-4ca4-894e-db77e160355e.mp3'' \<and>
   outtmpl (build_ydl_opts ''/tmp'' ''1b4e28ba-2fa1-41d2-883f-0016d3cca427''
              (the (map_of QUALITY_SETTINGS ''flac''))) \<noteq>
   outtmpl (build_ydl_opts ''/tmp'' ''6fa459ea-ee8a-4ca4-894e-db77e160355e''
              (the (map_of QUALITY_SETTINGS ''mp3_320''))) \<and>
   \<not> startswith ''1b4e28ba-2fa1-41d2-883f-0016d3cca427.flac''
         ''6fa459ea-ee8a-4ca4-894e-db77e160355e'' \<and>
   os_path_join ''/tmp'' ''1b4e28ba-2fa1-41d2-883f-0016d3cca427.flac'' \<noteq>
   os_path_join ''/tmp'' ''6fa459ea-ee8a-4ca4-894e-db77e160355e.mp3'' \<and>
   os_path_exists
     (fst (cleanup_file
        \<lparr>files = [''/tmp/6fa459ea-ee8a-4ca4-894e-db77e160355e.mp3'',
                  ''/tmp/1b4e28ba-2fa1-41d2-883f-0016d3cca427.flac''],
         remove_error = (\<lambda>p. None)\<rparr>
        (os_path_join ''/tmp'' ''1b4e28ba-2fa1-41d2-883f-0016d3cca427.flac'')))
     (os_path_join ''/tmp'' ''6fa459ea-ee8a-4ca4-894e-db77e160355e.mp3'') =
   os_path_exists
     \<lparr>files = [''/tmp/6fa459ea-ee8a-4ca4-894e-db77e160355e.mp3'',
               ''/tmp/1b4e28ba-2fa1-41d2-883f-0016d3cca427.flac''],
      remove_error = (\<lambda>p. None)\<rparr>
     (os_path_join ''/tmp'' ''6fa459ea-ee8a-4ca4-894e-db77e160355e.mp3'')"
proof -
  let ?a = "''1b4e28ba-2fa1-41d2-883f-0016d3cca427''"
  let ?b = "''6fa459ea-ee8a-4ca4-894e-db77e160355e''"
  let ?l = "[''6fa459ea-ee8a-4ca4-894e-db77e160355e.mp3'',
             ''1b4e28ba-2fa1-41d2-883f-0016d3cca427.flac'']"
  have len: "length ?a = length ?b" by simp
  have ne: "?a \<noteq> ?b" by simp
  have m1: "first_match ?a ?l = Some ''1b4e28ba-2fa1-41d2-883f-0016d3cca427.flac''"
    by simp
  have m2: "first_match ?b ?l = Some ''6fa459ea-ee8a-4ca4-894e-db77e160355e.mp3''"
    by simp
  have n1: "CHR ''/'' \<notin> set ''1b4e28ba-2fa1-41d2-883f-0016d3cca427.flac''" by simp
  have n2: "CHR ''/'' \<notin> set ''6fa459ea-ee8a-4ca4-894e-db77e160355e.mp3''" by simp
  from distinct_identifiers_never_collide [OF len ne,
      where ?listing1.0 = ?l and ?listing2.0 = ?l
        and ?f1.0 = "''1b4e28ba-2fa1-41d2-883f-0016d3cca427.flac''"
        and ?f2.0 = "''6fa459ea-ee8a-4ca4-894e-db77e160355e.mp3''"
        and TEMP_DIR = "''/tmp''"]
       len ne m1 m2 n1 n2
  show ?thesis by blast
qed

subsection \<open>Cleanup of a missing file, and cleanup twice\<close>

text \<open>
  C10. On a path that does not exist \<^verbatim>\<open>cleanup_file\<close> removes nothing, logs nothing and
  returns normally; and on any path, the file system after two runs of
  \<^verbatim>\<open>cleanup_file\<close> is the file system after one.
\<close>

theorem cleanup_file_idempotent:
  "(\<not> os_path_exists fs p \<longrightarrow> cleanup_file fs p = (fs, [], Inr ())) \<and>
   fst (cleanup_file (fst (cleanup_file fs p)) p) = fst (cleanup_file fs p)"
  by (auto simp: cleanup_file_def os_path_exists_def os_remove_def
           split: option.splits sum.splits if_splits)

theorem cleanup_file_idempotent_witness:
  "\<not> os_path_exists \<lparr>files = [''/tmp/other.mp3''], remove_error = (\<lambda>p. None)\<rparr>
        ''/tmp/1b4e28ba.mp3'' \<and>
   cleanup_file \<lparr>files = [''/tmp/other.mp3''], remove_error = (\<lambda>p. None)\<rparr>
     ''/tmp/1b4e28ba.mp3'' =
     (\<lparr>files = [''/tmp/other.mp3''], remove_error = (\<lambda>p. None)\<rparr>, [], Inr ())"
proof -
  let ?fs = "\<lparr>files = [''/tmp/other.mp3''], remove_error = (\<lambda>p. None)\<rparr>"
  have h: "\<not> os_path_exists ?fs ''/tmp/1b4e28ba.mp3''" by (simp add: os_path_exists_def)
  from cleanup_file_idempotent [of ?fs "''/tmp/1b4e28ba.mp3''"] h show ?thesis by simp
qed

end
